theory Spec2Isabelle
  imports Main
begin

section \<open>Data model of app.py\<close>

text \<open>
  The matchmaking part of \<^verbatim>\<open>app.py\<close>: the module globals \<^verbatim>\<open>waiting_queue\<close> and
  \<^verbatim>\<open>active_sessions\<close>, the table behind the \<^verbatim>\<open>VoiceSession\<close> model, the two Daily.co
  helpers and the Socket.IO handlers. Each handler is a function from the state before to the
  state after. What a handler reads from outside (the clock, \<^verbatim>\<open>secrets\<close>, the answer of the
  Daily.co API) comes in an \<open>env\<close>; what it sends outside (Socket.IO events, API requests,
  background tasks) is appended to a log kept in the state.

  Times (\<^verbatim>\<open>time.time()\<close>, \<^verbatim>\<open>datetime.utcnow()\<close>) are natural numbers of seconds.
  The table is the list of its rows in the order of insertion. Inside a Socket.IO handler, where
  Flask-SocketIO has pushed the application context, \<^verbatim>\<open>db.session.add\<close> with
  \<^verbatim>\<open>db.session.commit\<close> appends a row, and the database is taken to accept it.
  \<^verbatim>\<open>check_timeout\<close> runs in a thread of its own (line 284) in which nothing pushes an
  application context (only \<^verbatim>\<open>migrate_database\<close> does, for itself), and there
  \<^verbatim>\<open>db.session\<close> raises \<^verbatim>\<open>RuntimeError\<close> with the Flask-SQLAlchemy that line 3 installs.
\<close>

text \<open>\<^verbatim>\<open>current_user\<close>: the columns of \<^verbatim>\<open>User\<close> the handlers read.\<close>

record user =
  u_id :: int
  u_username :: string

text \<open>
  A Socket.IO request: \<^verbatim>\<open>current_user\<close> (\<open>None\<close> when \<^verbatim>\<open>is_authenticated\<close> is false) and
  \<^verbatim>\<open>request.sid\<close>.
\<close>

record request =
  current_user :: "user option"
  req_sid :: string

text \<open>The dict appended to \<^verbatim>\<open>waiting_queue\<close> (lines 274-279).\<close>

record entry =
  user_id :: int
  username :: string
  sid :: string
  joined_at :: nat

text \<open>A row of \<^verbatim>\<open>VoiceSession\<close> (lines 49-59); \<^verbatim>\<open>status\<close> defaults to \<^verbatim>\<open>'active'\<close>.\<close>

record voice_session =
  vs_session_id :: string
  vs_room_name :: string
  vs_room_url :: string
  vs_user1_id :: int
  vs_user2_id :: "int option"
  vs_is_ai_session :: bool
  vs_status :: string
  vs_created_at :: nat
  vs_ended_at :: "nat option"

text \<open>
  A value of the dict \<^verbatim>\<open>active_sessions\<close> (lines 247-253 and 313-320); the key
  \<^verbatim>\<open>'is_ai'\<close> is only there for a session made by the timeout.
\<close>

record active_session =
  as_user1_id :: int
  as_user2_id :: "int option"
  as_room_name :: string
  as_room_url :: string
  as_created_at :: nat
  as_is_ai :: "bool option"

text \<open>The payload of a \<^verbatim>\<open>matched\<close> event; the timeout sends no \<^verbatim>\<open>partner_name\<close>.\<close>

record matched_payload =
  p_session_id :: string
  p_room_url :: string
  p_is_ai :: bool
  p_partner_name :: "string option"

datatype event =
    Waiting nat
  | Matched matched_payload
  | SearchCancelled
  | SessionEnded

text \<open>The requests sent to \<^verbatim>\<open>https://api.daily.co/v1/rooms\<close>, by room name.\<close>

datatype api_call = Post string | Delete string

text \<open>
  What \<^verbatim>\<open>requests.post\<close> and \<^verbatim>\<open>requests.delete\<close> come back with: an exception, or a
  response with its status code and its body (\<open>None\<close> when \<^verbatim>\<open>response.json()\<close> raises).
\<close>

datatype http_result =
    Raised
  | Response nat "(string \<times> string) list option"

text \<open>
  The exceptions that leave a handler or a task: \<^verbatim>\<open>db.session\<close> outside an application
  context, and \<^verbatim>\<open>popleft\<close> on an empty deque.
\<close>

datatype py_error = RuntimeError | IndexError

text \<open>
  A pending \<^verbatim>\<open>check_timeout(user_id, sid)\<close> started by
  \<^verbatim>\<open>socketio.start_background_task\<close>, asleep until \<open>t_wake\<close>.
\<close>

record task =
  t_user_id :: int
  t_sid :: string
  t_wake :: nat

record env =
  now :: nat
  token_urlsafe :: string
  token_hex :: string
  post_result :: http_result
  delete_result :: http_result

record state =
  DAILY_API_KEY :: string
  DAILY_DOMAIN :: string
  waiting_queue :: "entry list"
  active_sessions :: "string \<rightharpoonup> active_session"
  voice_sessions :: "voice_session list"
  emitted :: "(string \<times> event) list"
  api_calls :: "api_call list"
  background_tasks :: "task list"

definition init :: "string \<Rightarrow> string \<Rightarrow> state" where
  "init key domain =
     \<lparr>DAILY_API_KEY = key, DAILY_DOMAIN = domain, waiting_queue = [],
      active_sessions = Map.empty, voice_sessions = [], emitted = [], api_calls = [],
      background_tasks = []\<rparr>"

section \<open>Daily.co room management (lines 65-141)\<close>

text \<open>\<^verbatim>\<open>f"https://{DAILY_DOMAIN}.daily.co/{room_name}"\<close>\<close>

definition fallback_url :: "string \<Rightarrow> string \<Rightarrow> string" where
  "fallback_url domain room_name = ''https://'' @ domain @ ''.daily.co/'' @ room_name"

text \<open>
  \<^verbatim>\<open>create_daily_room\<close>: without an API key no request is made. Otherwise the request is
  posted; status 200 with a body holding \<^verbatim>\<open>'url'\<close> and \<^verbatim>\<open>'name'\<close> gives these two, and every
  other outcome (another status, an exception of \<^verbatim>\<open>requests.post\<close>, of \<^verbatim>\<open>response.json()\<close> or
  of the two lookups, all inside the \<^verbatim>\<open>try\<close>) gives the fallback URL and the requested name.
\<close>

definition create_daily_room :: "env \<Rightarrow> string \<Rightarrow> state \<Rightarrow> (string \<times> string) \<times> state" where
  "create_daily_room ev room_name s =
     (if DAILY_API_KEY s = [] then ((fallback_url (DAILY_DOMAIN s) room_name, room_name), s)
      else
        let s' = s\<lparr>api_calls := api_calls s @ [Post room_name]\<rparr>;
            fallback = ((fallback_url (DAILY_DOMAIN s) room_name, room_name), s')
        in case post_result ev of
             Raised \<Rightarrow> fallback
           | Response status_code body \<Rightarrow>
               if status_code = 200 then
                 (case body of
                    None \<Rightarrow> fallback
                  | Some room_data \<Rightarrow>
                      (case map_of room_data ''url'' of
                         None \<Rightarrow> fallback
                       | Some url \<Rightarrow>
                           (case map_of room_data ''name'' of
                              None \<Rightarrow> fallback
                            | Some name \<Rightarrow> ((url, name), s'))))
               else fallback)"

text \<open>
  \<^verbatim>\<open>delete_daily_room\<close>: \<^verbatim>\<open>True\<close> without an API key (no request), otherwise whether the
  DELETE answered 200; an exception gives \<^verbatim>\<open>False\<close>.
\<close>

definition delete_daily_room :: "env \<Rightarrow> string \<Rightarrow> state \<Rightarrow> bool \<times> state" where
  "delete_daily_room ev room_name s =
     (if DAILY_API_KEY s = [] then (True, s)
      else
        let s' = s\<lparr>api_calls := api_calls s @ [Delete room_name]\<rparr>
        in case delete_result ev of
             Raised \<Rightarrow> (False, s')
           | Response status_code body \<Rightarrow> (status_code = 200, s'))"

section \<open>The handlers (lines 180-361)\<close>

text \<open>\<^verbatim>\<open>deque([u for u in waiting_queue if u['user_id'] != uid])\<close>\<close>

definition remove_user :: "int \<Rightarrow> entry list \<Rightarrow> entry list" where
  "remove_user uid q = filter (\<lambda>u. user_id u \<noteq> uid) q"

text \<open>\<^verbatim>\<open>any(u['user_id'] == user_id for u in waiting_queue)\<close> (line 291)\<close>

definition user_in_queue :: "int \<Rightarrow> state \<Rightarrow> bool" where
  "user_in_queue uid s = list_ex (\<lambda>u. user_id u = uid) (waiting_queue s)"

text \<open>The route \<^verbatim>\<open>/logout\<close> (\<^verbatim>\<open>login_required\<close>) and the \<^verbatim>\<open>disconnect\<close> handler.\<close>

definition logout :: "request \<Rightarrow> state \<Rightarrow> state" where
  "logout req s =
     (case current_user req of
        None \<Rightarrow> s
      | Some cu \<Rightarrow> s\<lparr>waiting_queue := remove_user (u_id cu) (waiting_queue s)\<rparr>)"

definition handle_disconnect :: "request \<Rightarrow> state \<Rightarrow> state" where
  "handle_disconnect req s =
     (case current_user req of
        None \<Rightarrow> s
      | Some cu \<Rightarrow> s\<lparr>waiting_queue := remove_user (u_id cu) (waiting_queue s)\<rparr>)"

text \<open>\<^verbatim>\<open>time.sleep(8)\<close> in \<^verbatim>\<open>check_timeout\<close>.\<close>

definition timeout_seconds :: nat where
  "timeout_seconds = 8"

definition handle_join_queue :: "env \<Rightarrow> request \<Rightarrow> state \<Rightarrow> state" where
  "handle_join_queue ev req s =
     (case current_user req of
        None \<Rightarrow> s
      | Some cu \<Rightarrow>
          let uid = u_id cu;
              name = u_username cu;
              s1 = s\<lparr>waiting_queue := remove_user uid (waiting_queue s)\<rparr>
          in (case waiting_queue s1 of
               partner # rest \<Rightarrow>
                 let s2 = s1\<lparr>waiting_queue := rest\<rparr>;
                     session_id = token_urlsafe ev;
                     ((room_url, room_name), s3) =
                        create_daily_room ev (''room'' @ token_hex ev) s2;
                     s4 = s3\<lparr>voice_sessions := voice_sessions s3 @
                            [\<lparr>vs_session_id = session_id, vs_room_name = room_name,
                              vs_room_url = room_url, vs_user1_id = user_id partner,
                              vs_user2_id = Some uid, vs_is_ai_session = False,
                              vs_status = ''active'', vs_created_at = now ev,
                              vs_ended_at = None\<rparr>]\<rparr>;
                     s5 = s4\<lparr>active_sessions := (active_sessions s4)(session_id \<mapsto>
                            \<lparr>as_user1_id = user_id partner, as_user2_id = Some uid,
                             as_room_name = room_name, as_room_url = room_url,
                             as_created_at = now ev, as_is_ai = None\<rparr>)\<rparr>
                 in s5\<lparr>emitted := emitted s5 @
                      [(sid partner,
                        Matched \<lparr>p_session_id = session_id, p_room_url = room_url,
                                 p_is_ai = False, p_partner_name = Some name\<rparr>),
                       (req_sid req,
                        Matched \<lparr>p_session_id = session_id, p_room_url = room_url,
                                 p_is_ai = False, p_partner_name = Some (username partner)\<rparr>)]\<rparr>
             | [] \<Rightarrow>
                 let s2 = s1\<lparr>waiting_queue := waiting_queue s1 @
                            [\<lparr>user_id = uid, username = name, sid = req_sid req,
                              joined_at = now ev\<rparr>]\<rparr>;
                     s3 = s2\<lparr>emitted := emitted s2 @
                            [(req_sid req, Waiting (length (waiting_queue s2)))]\<rparr>
                 in s3\<lparr>background_tasks := background_tasks s3 @
                      [\<lparr>t_user_id = uid, t_sid = req_sid req,
                        t_wake = now ev + timeout_seconds\<rparr>]\<rparr>))"

text \<open>
  The server runs every handler and every background task in a thread of its own
  (\<^verbatim>\<open>async_mode='threading'\<close>, line 27) and takes no lock, so a thread can be preempted between
  two statements. These are the pieces of \<^verbatim>\<open>handle_join_queue\<close> between which the claims need
  another thread to run: line 222, the test of line 225, line 226, lines 229-270 with the partner
  that line 226 popped, and lines 274-284.
\<close>

definition join_filter :: "user \<Rightarrow> state \<Rightarrow> state" where
  "join_filter cu s = s\<lparr>waiting_queue := remove_user (u_id cu) (waiting_queue s)\<rparr>"

definition queue_nonempty :: "state \<Rightarrow> bool" where
  "queue_nonempty s = (length (waiting_queue s) > 0)"

definition popleft :: "state \<Rightarrow> (py_error + entry) \<times> state" where
  "popleft s =
     (case waiting_queue s of
        [] \<Rightarrow> (Inl IndexError, s)
      | partner # rest \<Rightarrow> (Inr partner, s\<lparr>waiting_queue := rest\<rparr>))"

definition join_match :: "env \<Rightarrow> request \<Rightarrow> user \<Rightarrow> entry \<Rightarrow> state \<Rightarrow> state" where
  "join_match ev req cu partner s =
     (let session_id = token_urlsafe ev;
          ((room_url, room_name), s3) = create_daily_room ev (''room'' @ token_hex ev) s;
          s4 = s3\<lparr>voice_sessions := voice_sessions s3 @
                 [\<lparr>vs_session_id = session_id, vs_room_name = room_name,
                   vs_room_url = room_url, vs_user1_id = user_id partner,
                   vs_user2_id = Some (u_id cu), vs_is_ai_session = False,
                   vs_status = ''active'', vs_created_at = now ev,
                   vs_ended_at = None\<rparr>]\<rparr>;
          s5 = s4\<lparr>active_sessions := (active_sessions s4)(session_id \<mapsto>
                 \<lparr>as_user1_id = user_id partner, as_user2_id = Some (u_id cu),
                  as_room_name = room_name, as_room_url = room_url,
                  as_created_at = now ev, as_is_ai = None\<rparr>)\<rparr>
      in s5\<lparr>emitted := emitted s5 @
           [(sid partner,
             Matched \<lparr>p_session_id = session_id, p_room_url = room_url,
                      p_is_ai = False, p_partner_name = Some (u_username cu)\<rparr>),
            (req_sid req,
             Matched \<lparr>p_session_id = session_id, p_room_url = room_url,
                      p_is_ai = False, p_partner_name = Some (username partner)\<rparr>)]\<rparr>)"

definition new_entry :: "env \<Rightarrow> request \<Rightarrow> user \<Rightarrow> entry" where
  "new_entry ev req cu =
     \<lparr>user_id = u_id cu, username = u_username cu, sid = req_sid req, joined_at = now ev\<rparr>"

definition join_enqueue :: "env \<Rightarrow> request \<Rightarrow> user \<Rightarrow> state \<Rightarrow> state" where
  "join_enqueue ev req cu s =
     (let s2 = s\<lparr>waiting_queue := waiting_queue s @ [new_entry ev req cu]\<rparr>;
          s3 = s2\<lparr>emitted := emitted s2 @
                 [(req_sid req, Waiting (length (waiting_queue s2)))]\<rparr>
      in s3\<lparr>background_tasks := background_tasks s3 @
           [\<lparr>t_user_id = u_id cu, t_sid = req_sid req,
             t_wake = now ev + timeout_seconds\<rparr>]\<rparr>)"

text \<open>
  \<^verbatim>\<open>check_timeout\<close> after its sleep. Line 291 reads the queue into the local
  \<^verbatim>\<open>user_in_queue\<close>; lines 293-328 act on that local. \<open>check_timeout_body\<close> is lines 293-328
  with the local as an argument, so that what other threads do between the two can be written
  down; \<open>check_timeout\<close> is the whole function run in one piece.

  With the local true, line 295 removes the user's entries, lines 297-301 draw the tokens and
  create the room, line 303 builds the row, and \<^verbatim>\<open>db.session.add\<close> at line 310 raises
  \<^verbatim>\<open>RuntimeError\<close>, the task's thread having no application context. The exception ends the
  task: lines 311-328 (the commit, the entry in \<^verbatim>\<open>active_sessions\<close>, the \<^verbatim>\<open>matched\<close> event) do
  not run. The result says how the task ended and what state it left.
\<close>

definition check_timeout_body ::
    "env \<Rightarrow> int \<Rightarrow> string \<Rightarrow> bool \<Rightarrow> state \<Rightarrow> (py_error + unit) \<times> state" where
  "check_timeout_body ev uid tsid in_queue s =
     (if in_queue then
        let s1 = s\<lparr>waiting_queue := remove_user uid (waiting_queue s)\<rparr>;
            session_id = token_urlsafe ev;
            ((room_url, room_name), s2) = create_daily_room ev (''ai'' @ token_hex ev) s1
        in (Inl RuntimeError, s2)
      else (Inr (), s))"

definition check_timeout ::
    "env \<Rightarrow> int \<Rightarrow> string \<Rightarrow> state \<Rightarrow> (py_error + unit) \<times> state" where
  "check_timeout ev uid tsid s = check_timeout_body ev uid tsid (user_in_queue uid s) s"

definition handle_cancel_search :: "request \<Rightarrow> state \<Rightarrow> state" where
  "handle_cancel_search req s =
     (case current_user req of
        None \<Rightarrow> s
      | Some cu \<Rightarrow>
          let s1 = s\<lparr>waiting_queue := remove_user (u_id cu) (waiting_queue s)\<rparr>
          in s1\<lparr>emitted := emitted s1 @ [(req_sid req, SearchCancelled)]\<rparr>)"

text \<open>
  \<^verbatim>\<open>VoiceSession.query.filter_by(session_id=...).first()\<close> is \<open>find\<close>; the assignments to
  the row found and the commit are \<open>update_row\<close>, which rewrites the first row with that id.
\<close>

fun update_row :: "string \<Rightarrow> (voice_session \<Rightarrow> voice_session) \<Rightarrow> voice_session list
    \<Rightarrow> voice_session list" where
  "update_row k f [] = []"
| "update_row k f (r # rs) =
     (if vs_session_id r = k then f r # rs else r # update_row k f rs)"

text \<open>
  \<^verbatim>\<open>handle_end_session(data)\<close>: \<open>data\<close> is the dict sent by the client;
  \<^verbatim>\<open>if session_id:\<close> is false for a missing key and for the empty string.
\<close>

definition handle_end_session ::
    "env \<Rightarrow> request \<Rightarrow> (string \<rightharpoonup> string) \<Rightarrow> state \<Rightarrow> state" where
  "handle_end_session ev req data s =
     (case current_user req of
        None \<Rightarrow> s
      | Some cu \<Rightarrow>
          let s' =
            (case data ''session_id'' of
               None \<Rightarrow> s
             | Some session_id \<Rightarrow>
                 if session_id = [] then s
                 else
                   (case find (\<lambda>r. vs_session_id r = session_id) (voice_sessions s) of
                      None \<Rightarrow> s
                    | Some session_obj \<Rightarrow>
                        let s1 = s\<lparr>voice_sessions :=
                                   update_row session_id
                                     (\<lambda>r. r\<lparr>vs_status := ''ended'',
                                             vs_ended_at := Some (now ev)\<rparr>)
                                     (voice_sessions s)\<rparr>;
                            (deleted, s2) = delete_daily_room ev (vs_room_name session_obj) s1
                        in s2\<lparr>active_sessions := (active_sessions s2)(session_id := None)\<rparr>))
          in s'\<lparr>emitted := emitted s' @ [(req_sid req, SessionEnded)]\<rparr>)"

section \<open>Executions\<close>

text \<open>
  A pending background task that has slept its 8 seconds runs \<^verbatim>\<open>check_timeout\<close> and is gone;
  nobody reads how it ended.
\<close>

definition run_task :: "env \<Rightarrow> task \<Rightarrow> state \<Rightarrow> state" where
  "run_task ev t s =
     snd (check_timeout ev (t_user_id t) (t_sid t)
       (s\<lparr>background_tasks := remove1 t (background_tasks s)\<rparr>))"

text \<open>
  Threads that have each passed lines 222 and 225 while the queue was empty, and then run lines
  274-284 in the order of the list.
\<close>

fun enqueue_all :: "(env \<times> request \<times> user) list \<Rightarrow> state \<Rightarrow> state" where
  "enqueue_all [] s = s"
| "enqueue_all ((ev, req, cu) # js) s = enqueue_all js (join_enqueue ev req cu s)"

text \<open>
  \<^verbatim>\<open>session_id\<close> is a fresh \<^verbatim>\<open>secrets.token_urlsafe(16)\<close>: the column is \<^verbatim>\<open>unique\<close>, and
  the serial executions below only draw ids that the table does not hold.
\<close>

definition fresh :: "env \<Rightarrow> state \<Rightarrow> bool" where
  "fresh ev s = (token_urlsafe ev \<notin> set (map vs_session_id (voice_sessions s)))"

text \<open>
  The states the server reaches from its start in a serial execution: requests and woken tasks
  are served one at a time, each to its end before the next begins. The server does not enforce
  this; with its threads it also reaches states that no serial execution reaches, and those are
  written below as compositions of the pieces above.
\<close>

inductive serially_reachable :: "state \<Rightarrow> bool" where
  start: "serially_reachable (init key domain)"
| join: "serially_reachable s \<Longrightarrow> fresh ev s \<Longrightarrow>
     serially_reachable (handle_join_queue ev req s)"
| cancel: "serially_reachable s \<Longrightarrow> serially_reachable (handle_cancel_search req s)"
| disconnect: "serially_reachable s \<Longrightarrow> serially_reachable (handle_disconnect req s)"
| leave: "serially_reachable s \<Longrightarrow> serially_reachable (logout req s)"
| end_session: "serially_reachable s \<Longrightarrow>
     serially_reachable (handle_end_session ev req data s)"
| timeout: "serially_reachable s \<Longrightarrow> t \<in> set (background_tasks s) \<Longrightarrow> t_wake t \<le> now ev
     \<Longrightarrow> serially_reachable (run_task ev t s)"

section \<open>Predicates used to state the claims\<close>

text \<open>
  The outcomes of \<^verbatim>\<open>requests.post\<close> on which \<^verbatim>\<open>create_daily_room\<close> does not return at line
  109: an exception, a status other than 200, a body that is not JSON or that lacks \<^verbatim>\<open>'url'\<close> or
  \<^verbatim>\<open>'name'\<close>.
\<close>

definition provisioning_failed :: "http_result \<Rightarrow> bool" where
  "provisioning_failed r =
     (case r of
        Raised \<Rightarrow> True
      | Response status_code body \<Rightarrow>
          status_code \<noteq> 200 \<or>
          (case body of
             None \<Rightarrow> True
           | Some room_data \<Rightarrow>
               map_of room_data ''url'' = None \<or> map_of room_data ''name'' = None))"

text \<open>
  The outcomes of \<^verbatim>\<open>requests.delete\<close> on which \<^verbatim>\<open>delete_daily_room\<close> answers \<^verbatim>\<open>False\<close>.
\<close>

definition release_failed :: "http_result \<Rightarrow> bool" where
  "release_failed r =
     (case r of Raised \<Rightarrow> True | Response status_code body \<Rightarrow> status_code \<noteq> 200)"

text \<open>
  The row that \<^verbatim>\<open>handle_end_session\<close> finds for \<open>data\<close> (lines 347-350), if any.
\<close>

definition requested_session :: "(string \<rightharpoonup> string) \<Rightarrow> state \<Rightarrow> voice_session option" where
  "requested_session data s =
     (case data ''session_id'' of
        None \<Rightarrow> None
      | Some session_id \<Rightarrow>
          if session_id = [] then None
          else find (\<lambda>r. vs_session_id r = session_id) (voice_sessions s))"



section \<open>Sample requests\<close>

text \<open>
  Two logged-in users on two sockets; an environment in which the Daily.co API is down
  (\<open>at_time\<close>) and one in which it answers 200 (\<open>online\<close>); the run in which alice joins, bob
  joins and is paired with her in session \<^verbatim>\<open>t2\<close>, and alice then joins again.
\<close>

definition alice :: request where
  "alice = \<lparr>current_user = Some \<lparr>u_id = 1, u_username = ''alice''\<rparr>, req_sid = ''sid-a''\<rparr>"

definition bob :: request where
  "bob = \<lparr>current_user = Some \<lparr>u_id = 2, u_username = ''bob''\<rparr>, req_sid = ''sid-b''\<rparr>"

definition at_time :: "nat \<Rightarrow> string \<Rightarrow> env" where
  "at_time t tok =
     \<lparr>now = t, token_urlsafe = tok, token_hex = tok, post_result = Raised,
      delete_result = Raised\<rparr>"

definition alice_entry :: "nat \<Rightarrow> entry" where
  "alice_entry t = \<lparr>user_id = 1, username = ''alice'', sid = ''sid-a'', joined_at = t\<rparr>"

definition online :: "nat \<Rightarrow> string \<Rightarrow> env" where
  "online t tok =
     \<lparr>now = t, token_urlsafe = tok, token_hex = tok,
      post_result = Response 200
        (Some [(''url'', ''https://dom.daily.co/room'' @ tok), (''name'', ''room'' @ tok)]),
      delete_result = Response 200 None\<rparr>"

definition alice_and_bob :: state where
  "alice_and_bob =
     handle_join_queue (online 3 ''t2'') bob
       (handle_join_queue (online 0 ''t1'') alice (init ''key'' ''dom''))"

definition end_t2 :: "string \<rightharpoonup> string" where
  "end_t2 = map_of [(''session_id'', ''t2'')]"


text \<open>Alice joins, cancels, and joins again five seconds after her first join.\<close>

definition cancel_rejoin :: state where
  "cancel_rejoin =
     handle_join_queue (at_time 5 ''t2'') alice
       (handle_cancel_search alice
          (handle_join_queue (at_time 0 ''t1'') alice (init ''key'' ''dom'')))"

text \<open>
  The users behind the sample requests, and a third user on a third socket.
\<close>

definition alice_user :: user where
  "alice_user = \<lparr>u_id = 1, u_username = ''alice''\<rparr>"


definition carol_user :: user where
  "carol_user = \<lparr>u_id = 3, u_username = ''carol''\<rparr>"

definition carol :: request where
  "carol = \<lparr>current_user = Some carol_user, req_sid = ''sid-c''\<rparr>"

text \<open>
  Two \<^verbatim>\<open>join_queue\<close> requests of alice served by two threads: each runs line 222 and the test
  of line 225 while the queue is empty, then each runs lines 274-284.
\<close>

definition double_join :: state where
  "double_join =
     join_enqueue (at_time 0 ''t2'') alice alice_user
       (join_enqueue (at_time 0 ''t1'') alice alice_user
          (join_filter alice_user (join_filter alice_user (init ''key'' ''dom''))))"

text \<open>
  The same with carol and alice: both pass line 225 on the empty queue, carol appends first.
\<close>

definition two_waiting :: state where
  "two_waiting =
     join_enqueue (at_time 2 ''t2'') alice alice_user
       (join_enqueue (at_time 0 ''t1'') carol carol_user
          (join_filter alice_user (join_filter carol_user (init ''key'' ''dom''))))"


section \<open>What each handler does to the state\<close>

lemma create_daily_room_state:
  "snd (create_daily_room ev n s) =
     s\<lparr>api_calls := api_calls s @ (if DAILY_API_KEY s = [] then [] else [Post n])\<rparr>"
  by (simp add: create_daily_room_def Let_def split: http_result.splits option.splits)

lemma delete_daily_room_state:
  "snd (delete_daily_room ev n s) =
     s\<lparr>api_calls := api_calls s @ (if DAILY_API_KEY s = [] then [] else [Delete n])\<rparr>"
  by (simp add: delete_daily_room_def Let_def split: http_result.splits)

lemma create_daily_room_cong:
  "DAILY_API_KEY s' = DAILY_API_KEY s \<Longrightarrow> DAILY_DOMAIN s' = DAILY_DOMAIN s \<Longrightarrow>
   fst (create_daily_room ev n s') = fst (create_daily_room ev n s)"
  by (simp add: create_daily_room_def Let_def split: http_result.splits option.splits)

lemma join_pairs:
  assumes "current_user req = Some cu"
    and "remove_user (u_id cu) (waiting_queue s) = partner # rest"
  shows "handle_join_queue ev req s =
    (let room = fst (create_daily_room ev (''room'' @ token_hex ev) s) in
     s\<lparr>waiting_queue := rest,
       api_calls := api_calls s @
         (if DAILY_API_KEY s = [] then [] else [Post (''room'' @ token_hex ev)]),
       voice_sessions := voice_sessions s @
         [\<lparr>vs_session_id = token_urlsafe ev, vs_room_name = snd room, vs_room_url = fst room,
           vs_user1_id = user_id partner, vs_user2_id = Some (u_id cu),
           vs_is_ai_session = False, vs_status = ''active'', vs_created_at = now ev,
           vs_ended_at = None\<rparr>],
       active_sessions := (active_sessions s)(token_urlsafe ev \<mapsto>
          \<lparr>as_user1_id = user_id partner, as_user2_id = Some (u_id cu),
           as_room_name = snd room, as_room_url = fst room, as_created_at = now ev,
           as_is_ai = None\<rparr>),
       emitted := emitted s @
         [(sid partner,
           Matched \<lparr>p_session_id = token_urlsafe ev, p_room_url = fst room, p_is_ai = False,
                    p_partner_name = Some (u_username cu)\<rparr>),
          (req_sid req,
           Matched \<lparr>p_session_id = token_urlsafe ev, p_room_url = fst room, p_is_ai = False,
                    p_partner_name = Some (username partner)\<rparr>)]\<rparr>)"
proof -
  have room: "fst (create_daily_room ev n (s\<lparr>waiting_queue := q\<rparr>)) = fst (create_daily_room ev n s)"
    for n q by (intro create_daily_room_cong) simp_all
  show ?thesis
    using assms
    by (simp add: handle_join_queue_def Let_def split_beta create_daily_room_state room)
qed

lemma join_enqueues:
  assumes "current_user req = Some cu"
    and "remove_user (u_id cu) (waiting_queue s) = []"
  shows "handle_join_queue ev req s =
    s\<lparr>waiting_queue := [\<lparr>user_id = u_id cu, username = u_username cu, sid = req_sid req,
                          joined_at = now ev\<rparr>],
      emitted := emitted s @ [(req_sid req, Waiting 1)],
      background_tasks := background_tasks s @
        [\<lparr>t_user_id = u_id cu, t_sid = req_sid req, t_wake = now ev + timeout_seconds\<rparr>]\<rparr>"
  using assms by (simp add: handle_join_queue_def Let_def)

lemma timeout_stops:
  "check_timeout_body ev uid tsid True s =
    (Inl RuntimeError,
     s\<lparr>waiting_queue := remove_user uid (waiting_queue s),
       api_calls := api_calls s @
         (if DAILY_API_KEY s = [] then [] else [Post (''ai'' @ token_hex ev)])\<rparr>)"
  by (simp add: check_timeout_body_def Let_def split_beta create_daily_room_state)

lemma timeout_idle: "check_timeout_body ev uid tsid False s = (Inr (), s)"
  by (simp add: check_timeout_body_def)

lemma handle_join_queue_steps:
  "handle_join_queue ev req s =
     (case current_user req of
        None \<Rightarrow> s
      | Some cu \<Rightarrow>
          let s1 = join_filter cu s
          in if queue_nonempty s1 then
               (case popleft s1 of
                  (Inl e, s2) \<Rightarrow> s2
                | (Inr partner, s2) \<Rightarrow> join_match ev req cu partner s2)
             else join_enqueue ev req cu s1)"
  by (simp add: handle_join_queue_def join_filter_def queue_nonempty_def popleft_def
      join_match_def join_enqueue_def new_entry_def Let_def split_beta
      split: option.splits list.splits)

lemma queue_join_enqueue:
  "waiting_queue (join_enqueue ev req cu s) = waiting_queue s @ [new_entry ev req cu]"
  by (simp add: join_enqueue_def Let_def)

lemma queue_enqueue_all:
  "waiting_queue (enqueue_all js s) =
     waiting_queue s @ map (\<lambda>(ev, req, cu). new_entry ev req cu) js"
  by (induction js s rule: enqueue_all.induct) (simp_all add: queue_join_enqueue)

lemma sessions_enqueue_all: "voice_sessions (enqueue_all js s) = voice_sessions s"
  by (induction js s rule: enqueue_all.induct) (simp_all add: join_enqueue_def Let_def)

lemma queue_join:
  "waiting_queue (handle_join_queue ev req s) =
     (case current_user req of
        None \<Rightarrow> waiting_queue s
      | Some cu \<Rightarrow>
          (case remove_user (u_id cu) (waiting_queue s) of
             [] \<Rightarrow> [\<lparr>user_id = u_id cu, username = u_username cu, sid = req_sid req,
                     joined_at = now ev\<rparr>]
           | partner # rest \<Rightarrow> rest))"
proof (cases "current_user req")
  case None
  then show ?thesis by (simp add: handle_join_queue_def)
next
  case (Some cu)
  then show ?thesis
    by (cases "remove_user (u_id cu) (waiting_queue s)")
       (simp_all add: join_enqueues join_pairs Let_def)
qed

lemma queue_check_timeout:
  "waiting_queue (snd (check_timeout ev uid tsid s)) = remove_user uid (waiting_queue s)"
proof (cases "user_in_queue uid s")
  case True
  then show ?thesis by (simp add: check_timeout_def timeout_stops)
next
  case False
  then have "remove_user uid (waiting_queue s) = waiting_queue s"
    by (simp add: user_in_queue_def remove_user_def list_ex_iff filter_id_conv)
  with False show ?thesis by (simp add: check_timeout_def timeout_idle)
qed

lemma queue_run_task:
  "waiting_queue (run_task ev t s) = remove_user (t_user_id t) (waiting_queue s)"
  by (simp add: run_task_def queue_check_timeout)

lemma queue_cancel:
  "waiting_queue (handle_cancel_search req s) =
     (case current_user req of None \<Rightarrow> waiting_queue s
      | Some cu \<Rightarrow> remove_user (u_id cu) (waiting_queue s))"
  by (simp add: handle_cancel_search_def Let_def split: option.splits)

lemma queue_disconnect:
  "waiting_queue (handle_disconnect req s) =
     (case current_user req of None \<Rightarrow> waiting_queue s
      | Some cu \<Rightarrow> remove_user (u_id cu) (waiting_queue s))"
  by (simp add: handle_disconnect_def split: option.splits)

lemma queue_logout:
  "waiting_queue (logout req s) =
     (case current_user req of None \<Rightarrow> waiting_queue s
      | Some cu \<Rightarrow> remove_user (u_id cu) (waiting_queue s))"
  by (simp add: logout_def split: option.splits)

lemma queue_end_session:
  "waiting_queue (handle_end_session ev req data s) = waiting_queue s"
  by (simp add: handle_end_session_def Let_def split_beta delete_daily_room_state
      split: option.splits)

lemmas queue_simps = queue_join queue_run_task queue_cancel queue_disconnect queue_logout
  queue_end_session

lemma distinct_remove_user:
  "distinct (map user_id q) \<Longrightarrow> distinct (map user_id (remove_user uid q))"
  by (simp add: remove_user_def distinct_map_filter)

lemma length_remove_user: "length (remove_user uid q) \<le> length q"
  by (simp add: remove_user_def)

lemma reachable_distinct: "serially_reachable s \<Longrightarrow> distinct (map user_id (waiting_queue s))"
proof (induction rule: serially_reachable.induct)
  case (start key domain)
  show ?case by (simp add: init_def)
next
  case (join s ev req)
  show ?case
  proof (cases "current_user req")
    case None
    with join show ?thesis by (simp add: queue_join)
  next
    case (Some cu)
    have d: "distinct (map user_id (remove_user (u_id cu) (waiting_queue s)))"
      using join.IH by (rule distinct_remove_user)
    show ?thesis
    proof (cases "remove_user (u_id cu) (waiting_queue s)")
      case Nil
      with Some show ?thesis by (simp add: queue_join)
    next
      case (Cons partner rest)
      with d have "distinct (map user_id rest)" by simp
      with Some Cons show ?thesis by (simp add: queue_join)
    qed
  qed
qed (simp_all add: queue_simps distinct_remove_user split: option.splits)

lemma reachable_short: "serially_reachable s \<Longrightarrow> length (waiting_queue s) \<le> 1"
proof (induction rule: serially_reachable.induct)
  case (start key domain)
  show ?case by (simp add: init_def)
next
  case (join s ev req)
  show ?case
  proof (cases "current_user req")
    case None
    with join show ?thesis by (simp add: queue_join)
  next
    case (Some cu)
    have le: "length (remove_user (u_id cu) (waiting_queue s)) \<le> 1"
      using join.IH length_remove_user [of "u_id cu" "waiting_queue s"] by simp
    show ?thesis
    proof (cases "remove_user (u_id cu) (waiting_queue s)")
      case Nil
      with Some show ?thesis by (simp add: queue_join)
    next
      case (Cons partner rest)
      with le have "length rest \<le> 1" by simp
      with Some Cons show ?thesis by (simp add: queue_join)
    qed
  qed
next
  case (cancel s req)
  then show ?case
    using length_remove_user [of _ "waiting_queue s"]
    by (auto simp: queue_cancel split: option.splits intro: order_trans)
next
  case (disconnect s req)
  then show ?case
    using length_remove_user [of _ "waiting_queue s"]
    by (auto simp: queue_disconnect split: option.splits intro: order_trans)
next
  case (leave s req)
  then show ?case
    using length_remove_user [of _ "waiting_queue s"]
    by (auto simp: queue_logout split: option.splits intro: order_trans)
next
  case (end_session s ev req data)
  then show ?case by (simp add: queue_end_session)
next
  case (timeout s t ev)
  then show ?case
    using length_remove_user [of "t_user_id t" "waiting_queue s"]
    by (simp add: queue_run_task)
qed

subsection \<open>The sample run: alice joins the empty queue\<close>

lemma alice_waits:
  "handle_join_queue (at_time t tok) alice (init key d) =
     (init key d)\<lparr>waiting_queue := [alice_entry t],
        emitted := [(''sid-a'', Waiting 1)],
        background_tasks := [\<lparr>t_user_id = 1, t_sid = ''sid-a'', t_wake = t + 8\<rparr>]\<rparr>"
  by (simp add: handle_join_queue_def init_def alice_def at_time_def remove_user_def
      timeout_seconds_def alice_entry_def)

lemma alice_waits_reachable:
  "serially_reachable (handle_join_queue (at_time t tok) alice (init key d))"
  by (intro serially_reachable.join serially_reachable.start) (simp add: fresh_def init_def)

lemma create_daily_room_failed:
  "provisioning_failed (post_result ev) \<Longrightarrow>
   fst (create_daily_room ev n s) = (fallback_url (DAILY_DOMAIN s) n, n)"
  by (auto simp: create_daily_room_def provisioning_failed_def Let_def
      split: http_result.splits option.splits)

lemma find_update_row:
  "find (\<lambda>r. vs_session_id r = k) rows = Some row \<Longrightarrow> vs_session_id (f row) = k \<Longrightarrow>
   find (\<lambda>r. vs_session_id r = k) (update_row k f rows) = Some (f row)"
  by (induction rows) (auto split: if_splits)

lemma end_absent:
  assumes "current_user req = Some cu" and "requested_session data s = None"
  shows "handle_end_session ev req data s = s\<lparr>emitted := emitted s @ [(req_sid req, SessionEnded)]\<rparr>"
  using assms
  by (simp add: handle_end_session_def requested_session_def Let_def
      split: option.splits if_splits)

lemma end_known:
  assumes "current_user req = Some cu" and "requested_session data s = Some row"
  shows "handle_end_session ev req data s =
    s\<lparr>voice_sessions :=
        update_row (vs_session_id row)
          (\<lambda>r. r\<lparr>vs_status := ''ended'', vs_ended_at := Some (now ev)\<rparr>) (voice_sessions s),
      api_calls := api_calls s @
        (if DAILY_API_KEY s = [] then [] else [Delete (vs_room_name row)]),
      active_sessions := (active_sessions s)(vs_session_id row := None),
      emitted := emitted s @ [(req_sid req, SessionEnded)]\<rparr>"
proof -
  from assms(2) obtain k where k: "data ''session_id'' = Some k" "k \<noteq> []"
      "find (\<lambda>r. vs_session_id r = k) (voice_sessions s) = Some row"
    by (auto simp: requested_session_def split: option.splits if_splits)
  from k(3) have id: "vs_session_id row = k"
    by (auto simp: find_Some_iff)
  show ?thesis
    using assms(1) k
    by (simp add: handle_end_session_def Let_def split_beta delete_daily_room_state id)
qed

text \<open>
  A room that cannot be created: \<^verbatim>\<open>create_daily_room\<close> returns the fallback URL built from the
  requested name; the pairing registers the session and sends the \<^verbatim>\<open>matched\<close> events with it;
  what the timeout task does is the same whatever the POST returned. A room that cannot be
  deleted: \<^verbatim>\<open>handle_end_session\<close> does not read the \<^verbatim>\<open>False\<close> and ends the session.
\<close>

lemma provisioning_fallback_used:
  assumes "provisioning_failed (post_result ev)" and "current_user req = Some cu"
  shows "fst (create_daily_room ev room_name s) =
      (fallback_url (DAILY_DOMAIN s) room_name, room_name) \<and>
    (remove_user (u_id cu) (waiting_queue s) = partner # rest \<longrightarrow>
       emitted (handle_join_queue ev req s) = emitted s @
         [(sid partner,
           Matched \<lparr>p_session_id = token_urlsafe ev,
                    p_room_url = fallback_url (DAILY_DOMAIN s) (''room'' @ token_hex ev),
                    p_is_ai = False, p_partner_name = Some (u_username cu)\<rparr>),
          (req_sid req,
           Matched \<lparr>p_session_id = token_urlsafe ev,
                    p_room_url = fallback_url (DAILY_DOMAIN s) (''room'' @ token_hex ev),
                    p_is_ai = False, p_partner_name = Some (username partner)\<rparr>)] \<and>
       active_sessions (handle_join_queue ev req s) (token_urlsafe ev) =
         Some \<lparr>as_user1_id = user_id partner, as_user2_id = Some (u_id cu),
               as_room_name = ''room'' @ token_hex ev,
               as_room_url = fallback_url (DAILY_DOMAIN s) (''room'' @ token_hex ev),
               as_created_at = now ev, as_is_ai = None\<rparr>) \<and>
    check_timeout ev uid tsid s = check_timeout (ev\<lparr>post_result := r\<rparr>) uid tsid s \<and>
    (release_failed (delete_result ev') \<and> requested_session data s = Some row \<longrightarrow>
       (DAILY_API_KEY s \<noteq> [] \<longrightarrow> \<not> fst (delete_daily_room ev' (vs_room_name row) s)) \<and>
       requested_session data (handle_end_session ev' req data s) =
         Some (row\<lparr>vs_status := ''ended'', vs_ended_at := Some (now ev')\<rparr>) \<and>
       active_sessions (handle_end_session ev' req data s) (vs_session_id row) = None \<and>
       emitted (handle_end_session ev' req data s) = emitted s @ [(req_sid req, SessionEnded)])"
proof (intro conjI impI)
  show "fst (create_daily_room ev room_name s) =
      (fallback_url (DAILY_DOMAIN s) room_name, room_name)"
    using assms(1) by (rule create_daily_room_failed)
next
  assume "remove_user (u_id cu) (waiting_queue s) = partner # rest"
  note p = join_pairs [OF assms(2) this, of ev]
  note f = create_daily_room_failed [OF assms(1)]
  show "emitted (handle_join_queue ev req s) = emitted s @
         [(sid partner,
           Matched \<lparr>p_session_id = token_urlsafe ev,
                    p_room_url = fallback_url (DAILY_DOMAIN s) (''room'' @ token_hex ev),
                    p_is_ai = False, p_partner_name = Some (u_username cu)\<rparr>),
          (req_sid req,
           Matched \<lparr>p_session_id = token_urlsafe ev,
                    p_room_url = fallback_url (DAILY_DOMAIN s) (''room'' @ token_hex ev),
                    p_is_ai = False, p_partner_name = Some (username partner)\<rparr>)]"
    by (simp add: p f Let_def)
  show "active_sessions (handle_join_queue ev req s) (token_urlsafe ev) =
         Some \<lparr>as_user1_id = user_id partner, as_user2_id = Some (u_id cu),
               as_room_name = ''room'' @ token_hex ev,
               as_room_url = fallback_url (DAILY_DOMAIN s) (''room'' @ token_hex ev),
               as_created_at = now ev, as_is_ai = None\<rparr>"
    by (simp add: p f Let_def)
next
  show "check_timeout ev uid tsid s = check_timeout (ev\<lparr>post_result := r\<rparr>) uid tsid s"
    by (cases "user_in_queue uid s")
       (simp_all add: check_timeout_def timeout_stops timeout_idle)
next
  assume h: "release_failed (delete_result ev') \<and> requested_session data s = Some row"
  then have row: "requested_session data s = Some row" by simp
  from h show "\<not> fst (delete_daily_room ev' (vs_room_name row) s)"
    if "DAILY_API_KEY s \<noteq> []"
    using that
    by (auto simp: delete_daily_room_def release_failed_def Let_def split: http_result.splits)
  note k = end_known [OF assms(2) row, of ev']
  from row obtain sid' where sid': "data ''session_id'' = Some sid'" "sid' \<noteq> []"
      "find (\<lambda>r. vs_session_id r = sid') (voice_sessions s) = Some row"
    by (auto simp: requested_session_def split: option.splits if_splits)
  from sid'(3) have id: "vs_session_id row = sid'"
    by (auto simp: find_Some_iff)
  have "find (\<lambda>r. vs_session_id r = sid') (voice_sessions (handle_end_session ev' req data s)) =
      Some (row\<lparr>vs_status := ''ended'', vs_ended_at := Some (now ev')\<rparr>)"
    unfolding k using find_update_row [OF sid'(3), of
        "\<lambda>r. r\<lparr>vs_status := ''ended'', vs_ended_at := Some (now ev')\<rparr>"]
    by (simp add: id)
  with sid' show "requested_session data (handle_end_session ev' req data s) =
         Some (row\<lparr>vs_status := ''ended'', vs_ended_at := Some (now ev')\<rparr>)"
    by (simp add: requested_session_def)
  show "active_sessions (handle_end_session ev' req data s) (vs_session_id row) = None"
    by (simp add: k)
  show "emitted (handle_end_session ev' req data s) = emitted s @ [(req_sid req, SessionEnded)]"
    by (simp add: k)
qed

subsection \<open>The queue and the active sessions\<close>










lemma alice_and_bob_eq:
  "alice_and_bob =
     \<lparr>DAILY_API_KEY = ''key'', DAILY_DOMAIN = ''dom'', waiting_queue = [],
      active_sessions = [''t2'' \<mapsto>
        \<lparr>as_user1_id = 1, as_user2_id = Some 2, as_room_name = ''roomt2'',
         as_room_url = ''https://dom.daily.co/roomt2'', as_created_at = 3, as_is_ai = None\<rparr>],
      voice_sessions =
        [\<lparr>vs_session_id = ''t2'', vs_room_name = ''roomt2'',
          vs_room_url = ''https://dom.daily.co/roomt2'', vs_user1_id = 1, vs_user2_id = Some 2,
          vs_is_ai_session = False, vs_status = ''active'', vs_created_at = 3,
          vs_ended_at = None\<rparr>],
      emitted =
        [(''sid-a'', Waiting 1),
         (''sid-a'', Matched \<lparr>p_session_id = ''t2'', p_room_url = ''https://dom.daily.co/roomt2'',
            p_is_ai = False, p_partner_name = Some ''bob''\<rparr>),
         (''sid-b'', Matched \<lparr>p_session_id = ''t2'', p_room_url = ''https://dom.daily.co/roomt2'',
            p_is_ai = False, p_partner_name = Some ''alice''\<rparr>)],
      api_calls = [Post ''roomt2''],
      background_tasks = [\<lparr>t_user_id = 1, t_sid = ''sid-a'', t_wake = 8\<rparr>]\<rparr>"
  by (simp add: alice_and_bob_def handle_join_queue_def init_def alice_def bob_def online_def
      remove_user_def timeout_seconds_def create_daily_room_def Let_def)




lemma alice_cancels:
  "handle_cancel_search alice (handle_join_queue (at_time 0 ''t1'') alice (init ''key'' ''dom'')) =
     (init ''key'' ''dom'')\<lparr>waiting_queue := [],
        emitted := [(''sid-a'', Waiting 1), (''sid-a'', SearchCancelled)],
        background_tasks := [\<lparr>t_user_id = 1, t_sid = ''sid-a'', t_wake = 8\<rparr>]\<rparr>"
  unfolding alice_waits
  by (simp add: handle_cancel_search_def alice_def remove_user_def alice_entry_def init_def Let_def)

lemma cancel_rejoin_eq:
  "cancel_rejoin =
     (init ''key'' ''dom'')\<lparr>waiting_queue := [alice_entry 5],
        emitted := [(''sid-a'', Waiting 1), (''sid-a'', SearchCancelled), (''sid-a'', Waiting 1)],
        background_tasks := [\<lparr>t_user_id = 1, t_sid = ''sid-a'', t_wake = 8\<rparr>,
                             \<lparr>t_user_id = 1, t_sid = ''sid-a'', t_wake = 13\<rparr>]\<rparr>"
  unfolding cancel_rejoin_def alice_cancels
  by (simp add: handle_join_queue_def alice_def at_time_def remove_user_def alice_entry_def
      init_def timeout_seconds_def Let_def)

lemma cancel_rejoin_reachable: "serially_reachable cancel_rejoin"
proof -
  let ?s2 = "handle_cancel_search alice
    (handle_join_queue (at_time 0 ''t1'') alice (init ''key'' ''dom''))"
  have "serially_reachable ?s2"
    by (rule serially_reachable.cancel [OF alice_waits_reachable])
  moreover have "fresh (at_time 5 ''t2'') ?s2"
    unfolding alice_cancels by (simp add: fresh_def init_def)
  ultimately show ?thesis
    unfolding cancel_rejoin_def by (rule serially_reachable.join)
qed



lemma two_waiting_eq:
  "two_waiting =
     (init ''key'' ''dom'')
       \<lparr>waiting_queue :=
          [\<lparr>user_id = 3, username = ''carol'', sid = ''sid-c'', joined_at = 0\<rparr>, alice_entry 2],
        emitted := [(''sid-c'', Waiting 1), (''sid-a'', Waiting 2)],
        background_tasks := [\<lparr>t_user_id = 3, t_sid = ''sid-c'', t_wake = 8\<rparr>,
                             \<lparr>t_user_id = 1, t_sid = ''sid-a'', t_wake = 10\<rparr>]\<rparr>"
  by (simp add: two_waiting_def join_enqueue_def join_filter_def new_entry_def alice_def
      alice_user_def carol_def carol_user_def at_time_def init_def remove_user_def
      alice_entry_def timeout_seconds_def Let_def)

section \<open>The claims\<close>

subsection \<open>C1\<close>

text \<open>
  C1 as stated fails. The handler never reads \<^verbatim>\<open>status\<close>: whenever the row exists it sets
  \<^verbatim>\<open>status\<close> and \<^verbatim>\<open>ended_at\<close> and calls \<^verbatim>\<open>delete_daily_room\<close>. Alice and bob are paired in
  session \<^verbatim>\<open>t2\<close>; alice ends it at time 10 and again at time 20. The second call sends a second
  DELETE for the room and moves \<^verbatim>\<open>ended_at\<close> from 10 to 20.
\<close>

theorem end_session_twice_counterexample:
  "api_calls (handle_end_session (online 10 ''x'') alice end_t2 alice_and_bob) =
     [Post ''roomt2'', Delete ''roomt2''] \<and>
   map vs_ended_at
     (voice_sessions (handle_end_session (online 10 ''x'') alice end_t2 alice_and_bob)) =
     [Some 10] \<and>
   map vs_status
     (voice_sessions (handle_end_session (online 10 ''x'') alice end_t2 alice_and_bob)) =
     [''ended''] \<and>
   api_calls (handle_end_session (online 20 ''y'') alice end_t2
     (handle_end_session (online 10 ''x'') alice end_t2 alice_and_bob)) =
     [Post ''roomt2'', Delete ''roomt2'', Delete ''roomt2''] \<and>
   map vs_ended_at (voice_sessions (handle_end_session (online 20 ''y'') alice end_t2
     (handle_end_session (online 10 ''x'') alice end_t2 alice_and_bob))) =
     [Some 20]"
  by (simp add: alice_and_bob_eq handle_end_session_def end_t2_def alice_def online_def
      delete_daily_room_def Let_def)

text \<open>
  C1, amended. When no row is found for the request (no id, an empty or unknown id) nothing
  changes but for the \<^verbatim>\<open>session_ended\<close> event, and no error is raised. When a row is found,
  already ended or not, the call sets its status to \<^verbatim>\<open>'ended'\<close> and its \<^verbatim>\<open>ended_at\<close> to the time
  of the call, removes the id from \<^verbatim>\<open>active_sessions\<close> and, with an API key, sends one DELETE
  for the room. So of two calls for the same id the second leaves the status and
  \<^verbatim>\<open>active_sessions\<close> as they are, and it rewrites \<^verbatim>\<open>ended_at\<close> and sends the DELETE again.
\<close>

theorem end_session_repeats:
  assumes "current_user req = Some cu" and "current_user req' = Some cu'"
  shows "(requested_session data s = None \<longrightarrow>
       handle_end_session ev req data s =
         s\<lparr>emitted := emitted s @ [(req_sid req, SessionEnded)]\<rparr>) \<and>
    (requested_session data s = Some row \<longrightarrow>
       requested_session data (handle_end_session ev req data s) =
         Some (row\<lparr>vs_status := ''ended'', vs_ended_at := Some (now ev)\<rparr>) \<and>
       active_sessions (handle_end_session ev req data s) (vs_session_id row) = None \<and>
       api_calls (handle_end_session ev req data s) =
         api_calls s @ (if DAILY_API_KEY s = [] then [] else [Delete (vs_room_name row)]) \<and>
       requested_session data
           (handle_end_session ev' req' data (handle_end_session ev req data s)) =
         Some (row\<lparr>vs_status := ''ended'', vs_ended_at := Some (now ev')\<rparr>) \<and>
       active_sessions (handle_end_session ev' req' data (handle_end_session ev req data s)) =
         active_sessions (handle_end_session ev req data s) \<and>
       api_calls (handle_end_session ev' req' data (handle_end_session ev req data s)) =
         api_calls s @
           (if DAILY_API_KEY s = [] then []
            else [Delete (vs_room_name row), Delete (vs_room_name row)]))"
proof (intro conjI impI)
  assume "requested_session data s = None"
  with assms(1) show "handle_end_session ev req data s =
      s\<lparr>emitted := emitted s @ [(req_sid req, SessionEnded)]\<rparr>"
    by (rule end_absent)
next
  assume row: "requested_session data s = Some row"
  let ?s1 = "handle_end_session ev req data s"
  let ?row1 = "row\<lparr>vs_status := ''ended'', vs_ended_at := Some (now ev)\<rparr>"
  from row obtain k where k: "data ''session_id'' = Some k" "k \<noteq> []"
      "find (\<lambda>r. vs_session_id r = k) (voice_sessions s) = Some row"
    by (auto simp: requested_session_def split: option.splits if_splits)
  from k(3) have id: "vs_session_id row = k"
    by (auto simp: find_Some_iff)
  note s1 = end_known [OF assms(1) row, of ev]
  have found: "find (\<lambda>r. vs_session_id r = k) (voice_sessions ?s1) = Some ?row1"
    unfolding s1 using find_update_row [OF k(3), of
        "\<lambda>r. r\<lparr>vs_status := ''ended'', vs_ended_at := Some (now ev)\<rparr>"]
    by (simp add: id)
  with k show row1: "requested_session data ?s1 = Some ?row1"
    by (simp add: requested_session_def)
  show "active_sessions ?s1 (vs_session_id row) = None"
    by (simp add: s1)
  show "api_calls ?s1 =
      api_calls s @ (if DAILY_API_KEY s = [] then [] else [Delete (vs_room_name row)])"
    by (simp add: s1)
  let ?s2 = "handle_end_session ev' req' data ?s1"
  note s2 = end_known [OF assms(2) row1, of ev']
  have "find (\<lambda>r. vs_session_id r = k) (voice_sessions ?s2) =
      Some (?row1\<lparr>vs_status := ''ended'', vs_ended_at := Some (now ev')\<rparr>)"
    unfolding s2 using find_update_row [OF found, of
        "\<lambda>r. r\<lparr>vs_status := ''ended'', vs_ended_at := Some (now ev')\<rparr>"]
    by (simp add: id)
  with k show "requested_session data ?s2 =
      Some (row\<lparr>vs_status := ''ended'', vs_ended_at := Some (now ev')\<rparr>)"
    by (simp add: requested_session_def)
  show "active_sessions ?s2 = active_sessions ?s1"
    unfolding s2 by (simp add: s1)
  show "api_calls ?s2 = api_calls s @
      (if DAILY_API_KEY s = [] then []
       else [Delete (vs_room_name row), Delete (vs_room_name row)])"
    unfolding s2 by (simp add: s1)
qed


theorem end_session_repeats_witness:
  "handle_end_session (online 10 ''x'') alice (map_of []) alice_and_bob =
     alice_and_bob\<lparr>emitted := emitted alice_and_bob @ [(''sid-a'', SessionEnded)]\<rparr> \<and>
   map_option vs_status (requested_session end_t2 alice_and_bob) = Some ''active'' \<and>
   map_option vs_status (requested_session end_t2
     (handle_end_session (online 20 ''y'') bob end_t2
       (handle_end_session (online 10 ''x'') alice end_t2 alice_and_bob))) = Some ''ended'' \<and>
   map_option vs_ended_at (requested_session end_t2
     (handle_end_session (online 20 ''y'') bob end_t2
       (handle_end_session (online 10 ''x'') alice end_t2 alice_and_bob))) = Some (Some 20) \<and>
   api_calls (handle_end_session (online 20 ''y'') bob end_t2
       (handle_end_session (online 10 ''x'') alice end_t2 alice_and_bob)) =
     [Post ''roomt2'', Delete ''roomt2'', Delete ''roomt2'']"
proof -
  let ?row = "\<lparr>vs_session_id = ''t2'', vs_room_name = ''roomt2'',
          vs_room_url = ''https://dom.daily.co/roomt2'', vs_user1_id = 1, vs_user2_id = Some 2,
          vs_is_ai_session = False, vs_status = ''active'', vs_created_at = 3,
          vs_ended_at = None\<rparr>"
  have a: "current_user alice = Some \<lparr>u_id = 1, u_username = ''alice''\<rparr>"
    by (simp add: alice_def)
  have b: "current_user bob = Some \<lparr>u_id = 2, u_username = ''bob''\<rparr>"
    by (simp add: bob_def)
  have absent: "requested_session (map_of []) alice_and_bob = None"
    by (simp add: requested_session_def)
  have known: "requested_session end_t2 alice_and_bob = Some ?row"
    by (simp add: requested_session_def end_t2_def alice_and_bob_eq)
  have calls: "api_calls alice_and_bob = [Post ''roomt2'']" and key: "DAILY_API_KEY alice_and_bob = ''key''"
    by (simp_all add: alice_and_bob_eq)
  from end_session_repeats [OF a b, where data = "map_of []" and s = alice_and_bob
      and ev = "online 10 ''x''"] absent
  have first: "handle_end_session (online 10 ''x'') alice (map_of []) alice_and_bob =
     alice_and_bob\<lparr>emitted := emitted alice_and_bob @ [(''sid-a'', SessionEnded)]\<rparr>"
    by (simp add: alice_def)
  from end_session_repeats [OF a b, where data = end_t2 and s = alice_and_bob and row = ?row
      and ev = "online 10 ''x''" and ev' = "online 20 ''y''"] known
  show ?thesis
    using first by (simp add: calls key online_def)
qed

subsection \<open>C2\<close>

text \<open>
  C2 does not hold on the code: the fallback never comes about, so a timeout that wins the race
  leaves neither outcome. Alice waits. If her task runs first (time 8), it removes her entry,
  requests a room and ends with \<^verbatim>\<open>RuntimeError\<close> at line 310; bob, who joins at time 9, finds
  the queue empty and is queued. Alice's entry is gone and she has had neither a pairing nor a
  fallback: the only events are the two \<^verbatim>\<open>waiting\<close>, and there is no session. If instead bob's
  join runs between the task's test (line 291, true) and its lines 293-310, alice and bob are
  paired, and the task still requests a room for alice before it ends in the same way: one
  \<^verbatim>\<open>matched\<close> for alice, and a second POST.
\<close>

theorem timeout_race_no_outcome:
  "fst (check_timeout (at_time 8 ''t3'') 1 ''sid-a''
      (handle_join_queue (at_time 0 ''t1'') alice (init ''key'' ''dom''))) = Inl RuntimeError \<and>
   handle_join_queue (at_time 9 ''t2'') bob
     (snd (check_timeout (at_time 8 ''t3'') 1 ''sid-a''
        (handle_join_queue (at_time 0 ''t1'') alice (init ''key'' ''dom'')))) =
     (init ''key'' ''dom'')
       \<lparr>waiting_queue :=
          [\<lparr>user_id = 2, username = ''bob'', sid = ''sid-b'', joined_at = 9\<rparr>],
        emitted := [(''sid-a'', Waiting 1), (''sid-b'', Waiting 1)],
        api_calls := [Post ''ait3''],
        background_tasks := [\<lparr>t_user_id = 1, t_sid = ''sid-a'', t_wake = 8\<rparr>,
                             \<lparr>t_user_id = 2, t_sid = ''sid-b'', t_wake = 17\<rparr>]\<rparr> \<and>
   user_in_queue 1 (handle_join_queue (at_time 0 ''t1'') alice (init ''key'' ''dom'')) \<and>
   fst (check_timeout_body (at_time 8 ''t3'') 1 ''sid-a''
      (user_in_queue 1 (handle_join_queue (at_time 0 ''t1'') alice (init ''key'' ''dom'')))
      (handle_join_queue (at_time 8 ''t2'') bob
         (handle_join_queue (at_time 0 ''t1'') alice (init ''key'' ''dom'')))) =
     Inl RuntimeError \<and>
   emitted (snd (check_timeout_body (at_time 8 ''t3'') 1 ''sid-a''
      (user_in_queue 1 (handle_join_queue (at_time 0 ''t1'') alice (init ''key'' ''dom'')))
      (handle_join_queue (at_time 8 ''t2'') bob
         (handle_join_queue (at_time 0 ''t1'') alice (init ''key'' ''dom''))))) =
     [(''sid-a'', Waiting 1),
      (''sid-a'', Matched \<lparr>p_session_id = ''t2'', p_room_url = ''https://dom.daily.co/roomt2'',
          p_is_ai = False, p_partner_name = Some ''bob''\<rparr>),
      (''sid-b'', Matched \<lparr>p_session_id = ''t2'', p_room_url = ''https://dom.daily.co/roomt2'',
          p_is_ai = False, p_partner_name = Some ''alice''\<rparr>)] \<and>
   api_calls (snd (check_timeout_body (at_time 8 ''t3'') 1 ''sid-a''
      (user_in_queue 1 (handle_join_queue (at_time 0 ''t1'') alice (init ''key'' ''dom'')))
      (handle_join_queue (at_time 8 ''t2'') bob
         (handle_join_queue (at_time 0 ''t1'') alice (init ''key'' ''dom''))))) =
     [Post ''roomt2'', Post ''ait3'']"
  unfolding alice_waits
  by (simp add: check_timeout_def check_timeout_body_def user_in_queue_def
      handle_join_queue_def create_daily_room_def fallback_url_def remove_user_def
      alice_entry_def bob_def init_def at_time_def timeout_seconds_def Let_def)

subsection \<open>C3\<close>

text \<open>
  C3 as stated fails. Nothing in \<^verbatim>\<open>app.py\<close> cancels a started \<^verbatim>\<open>check_timeout\<close>, and the task
  looks for its \<^verbatim>\<open>user_id\<close> only. Alice joins at time 0 (task due at 8), cancels, and joins
  again at time 5 (task due at 13). After the cancel the first task is still pending. At time 8
  it runs, finds alice's second entry, removes it and requests a fallback room, three seconds
  after she joined; she is no longer queued and has been sent nothing.
\<close>

theorem stale_timer_counterexample:
  "background_tasks (handle_cancel_search alice
      (handle_join_queue (at_time 0 ''t1'') alice (init ''key'' ''dom''))) =
     [\<lparr>t_user_id = 1, t_sid = ''sid-a'', t_wake = 8\<rparr>] \<and>
   waiting_queue (handle_cancel_search alice
      (handle_join_queue (at_time 0 ''t1'') alice (init ''key'' ''dom''))) = [] \<and>
   map joined_at (waiting_queue cancel_rejoin) = [5] \<and>
   api_calls cancel_rejoin = [] \<and>
   serially_reachable (run_task (at_time 8 ''t3'')
      \<lparr>t_user_id = 1, t_sid = ''sid-a'', t_wake = 8\<rparr> cancel_rejoin) \<and>
   waiting_queue (run_task (at_time 8 ''t3'') \<lparr>t_user_id = 1, t_sid = ''sid-a'', t_wake = 8\<rparr>
      cancel_rejoin) = [] \<and>
   api_calls (run_task (at_time 8 ''t3'') \<lparr>t_user_id = 1, t_sid = ''sid-a'', t_wake = 8\<rparr>
      cancel_rejoin) = [Post ''ait3''] \<and>
   emitted (run_task (at_time 8 ''t3'') \<lparr>t_user_id = 1, t_sid = ''sid-a'', t_wake = 8\<rparr>
      cancel_rejoin) =
     [(''sid-a'', Waiting 1), (''sid-a'', SearchCancelled), (''sid-a'', Waiting 1)]"
proof -
  let ?t = "\<lparr>t_user_id = 1, t_sid = ''sid-a'', t_wake = 8\<rparr>"
  have r: "serially_reachable (run_task (at_time 8 ''t3'') ?t cancel_rejoin)"
    by (intro serially_reachable.timeout cancel_rejoin_reachable)
       (simp_all add: cancel_rejoin_eq at_time_def)
  show ?thesis
    using r unfolding alice_cancels
    by (simp add: cancel_rejoin_eq run_task_def check_timeout_def check_timeout_body_def
        user_in_queue_def create_daily_room_def remove_user_def alice_entry_def init_def
        at_time_def Let_def)
qed

text \<open>
  C3, amended. Cancel, disconnect, logout and the pairing remove the queue entry and leave the
  started tasks as they are. A task that runs while no entry of its user is queued returns
  without changing anything. A task that runs while an entry of its user is queued, whichever
  join put it there, removes it and, with an API key, requests a fallback room for it.
\<close>

theorem timers_not_cancelled:
  assumes "current_user req = Some cu"
  shows "background_tasks (handle_cancel_search req s) = background_tasks s \<and>
    background_tasks (handle_disconnect req s) = background_tasks s \<and>
    background_tasks (logout req s) = background_tasks s \<and>
    (remove_user (u_id cu) (waiting_queue s) = partner # rest \<longrightarrow>
       background_tasks (handle_join_queue ev req s) = background_tasks s) \<and>
    (\<not> user_in_queue uid s \<longrightarrow> check_timeout ev uid tsid s = (Inr (), s)) \<and>
    (user_in_queue uid s \<longrightarrow>
       waiting_queue (snd (check_timeout ev uid tsid s)) = remove_user uid (waiting_queue s) \<and>
       api_calls (snd (check_timeout ev uid tsid s)) = api_calls s @
         (if DAILY_API_KEY s = [] then [] else [Post (''ai'' @ token_hex ev)]))"
proof (intro conjI impI)
  show "background_tasks (handle_cancel_search req s) = background_tasks s"
    by (simp add: handle_cancel_search_def Let_def split: option.splits)
  show "background_tasks (handle_disconnect req s) = background_tasks s"
    by (simp add: handle_disconnect_def split: option.splits)
  show "background_tasks (logout req s) = background_tasks s"
    by (simp add: logout_def split: option.splits)
next
  assume "remove_user (u_id cu) (waiting_queue s) = partner # rest"
  from join_pairs [OF assms this, of ev]
  show "background_tasks (handle_join_queue ev req s) = background_tasks s"
    by (simp add: Let_def)
next
  assume "\<not> user_in_queue uid s"
  then show "check_timeout ev uid tsid s = (Inr (), s)"
    by (simp add: check_timeout_def timeout_idle)
next
  assume u: "user_in_queue uid s"
  show "waiting_queue (snd (check_timeout ev uid tsid s)) = remove_user uid (waiting_queue s)"
    by (rule queue_check_timeout)
  from u show "api_calls (snd (check_timeout ev uid tsid s)) = api_calls s @
      (if DAILY_API_KEY s = [] then [] else [Post (''ai'' @ token_hex ev)])"
    by (simp add: check_timeout_def timeout_stops)
qed

theorem timers_not_cancelled_witness:
  "background_tasks (handle_cancel_search bob cancel_rejoin) = background_tasks cancel_rejoin \<and>
   background_tasks (handle_join_queue (at_time 6 ''t4'') bob cancel_rejoin) =
     background_tasks cancel_rejoin \<and>
   \<not> user_in_queue 2 cancel_rejoin \<and>
   check_timeout (at_time 9 ''t5'') 2 ''sid-b'' cancel_rejoin = (Inr (), cancel_rejoin) \<and>
   user_in_queue 1 cancel_rejoin \<and>
   waiting_queue (snd (check_timeout (at_time 9 ''t5'') 1 ''sid-a'' cancel_rejoin)) = [] \<and>
   api_calls (snd (check_timeout (at_time 9 ''t5'') 1 ''sid-a'' cancel_rejoin)) = [Post ''ait5'']"
proof -
  have b: "current_user bob = Some \<lparr>u_id = 2, u_username = ''bob''\<rparr>"
    by (simp add: bob_def)
  have q: "remove_user 2 (waiting_queue cancel_rejoin) = [alice_entry 5]"
    by (simp add: cancel_rejoin_eq remove_user_def alice_entry_def)
  have u1: "user_in_queue 1 cancel_rejoin"
    by (simp add: user_in_queue_def cancel_rejoin_eq alice_entry_def)
  have u2: "\<not> user_in_queue 2 cancel_rejoin"
    by (simp add: user_in_queue_def cancel_rejoin_eq alice_entry_def)
  have c: "api_calls cancel_rejoin = []" "DAILY_API_KEY cancel_rejoin = ''key''"
    by (simp_all add: cancel_rejoin_eq init_def)
  have r: "remove_user 1 (waiting_queue cancel_rejoin) = []"
    by (simp add: cancel_rejoin_eq remove_user_def alice_entry_def)
  have tok: "token_hex (at_time t x) = x" for t x
    by (simp add: at_time_def)
  from timers_not_cancelled [OF b, where s = cancel_rejoin and partner = "alice_entry 5"
      and rest = "[]" and ev = "at_time 9 ''t5''" and uid = 2 and tsid = "''sid-b''"]
    u2
  have idle: "check_timeout (at_time 9 ''t5'') 2 ''sid-b'' cancel_rejoin = (Inr (), cancel_rejoin)"
    by simp
  from timers_not_cancelled [OF b, where s = cancel_rejoin and partner = "alice_entry 5"
      and rest = "[]" and ev = "at_time 6 ''t4''"] q
  have keep: "background_tasks (handle_cancel_search bob cancel_rejoin) =
      background_tasks cancel_rejoin \<and>
    background_tasks (handle_join_queue (at_time 6 ''t4'') bob cancel_rejoin) =
      background_tasks cancel_rejoin"
    by simp
  from timers_not_cancelled [OF b, where s = cancel_rejoin and ev = "at_time 9 ''t5''"
      and uid = 1 and tsid = "''sid-a''"] u1
  show ?thesis
    using idle keep u2 by (simp add: c r tok)
qed

subsection \<open>C4\<close>




subsection \<open>C5\<close>

text \<open>
  C5 as stated fails. Handlers run in threads with no lock. Two \<^verbatim>\<open>join_queue\<close> requests of
  alice are served by two threads; each runs line 222 and finds the queue empty at line 225
  before the other has appended, so both take the \<^verbatim>\<open>else\<close> branch and both append: the queue
  holds two entries of user 1.
\<close>

theorem two_entries_counterexample:
  "current_user alice = Some alice_user \<and>
   \<not> queue_nonempty (join_filter alice_user (init ''key'' ''dom'')) \<and>
   \<not> queue_nonempty (join_filter alice_user (join_filter alice_user (init ''key'' ''dom''))) \<and>
   map user_id (waiting_queue double_join) = [1, 1] \<and>
   \<not> distinct (map user_id (waiting_queue double_join))"
  by (simp add: double_join_def join_enqueue_def join_filter_def queue_nonempty_def
      new_entry_def alice_def alice_user_def init_def remove_user_def Let_def)

text \<open>
  C5, amended. When requests and woken tasks are served one at a time, each to its end, the
  entries of \<^verbatim>\<open>waiting_queue\<close> have pairwise different \<^verbatim>\<open>user_id\<close>s in every state reached. And
  from any state whatever, a join that runs to its end with no other thread in between leaves at
  most one entry of the caller in the queue, because line 222 first drops every entry of the
  caller.
\<close>

theorem one_entry_per_user:
  assumes "serially_reachable s" and "current_user req = Some cu"
  shows "distinct (map user_id (waiting_queue s)) \<and>
    length (filter (\<lambda>u. user_id u = u_id cu) (waiting_queue (handle_join_queue ev req t))) \<le> 1"
proof
  show "distinct (map user_id (waiting_queue s))"
    using assms(1) by (rule reachable_distinct)
next
  let ?q = "remove_user (u_id cu) (waiting_queue t)"
  have none: "filter (\<lambda>u. user_id u = u_id cu) ?q = []"
    by (simp add: remove_user_def)
  show "length (filter (\<lambda>u. user_id u = u_id cu) (waiting_queue (handle_join_queue ev req t))) \<le> 1"
  proof (cases ?q)
    case Nil
    with assms(2) show ?thesis by (simp add: queue_join)
  next
    case (Cons partner rest)
    with none have "filter (\<lambda>u. user_id u = u_id cu) rest = []"
      by (simp split: if_splits)
    with assms(2) Cons show ?thesis by (simp add: queue_join)
  qed
qed

theorem one_entry_per_user_witness:
  "serially_reachable (handle_join_queue (at_time 0 ''t1'') alice (init ''key'' ''dom'')) \<and>
   current_user alice = Some \<lparr>u_id = 1, u_username = ''alice''\<rparr> \<and>
   distinct (map user_id
     (waiting_queue (handle_join_queue (at_time 0 ''t1'') alice (init ''key'' ''dom'')))) \<and>
   length (filter (\<lambda>u. user_id u = 1)
     (waiting_queue (handle_join_queue (at_time 5 ''t2'') alice
        (handle_join_queue (at_time 0 ''t1'') alice (init ''key'' ''dom''))))) \<le> 1"
proof -
  let ?s1 = "handle_join_queue (at_time 0 ''t1'') alice (init ''key'' ''dom'')"
  have r: "serially_reachable ?s1"
    by (intro serially_reachable.join serially_reachable.start) (simp add: fresh_def init_def)
  have c: "current_user alice = Some \<lparr>u_id = 1, u_username = ''alice''\<rparr>"
    by (simp add: alice_def)
  from one_entry_per_user [OF r c, of "at_time 5 ''t2''" ?s1] r c show ?thesis
    by simp
qed

subsection \<open>C6\<close>

text \<open>
  C6 as stated fails in its second part. The pairing pops the front of the queue, which need
  not be the entry \<open>A\<close> that the joiner finds queued. Carol and alice both pass line 225 on the
  empty queue and append, carol first. Bob joins: alice is queued, bob's join pairs, and the
  entry popped is carol's; alice stays queued.
\<close>

theorem pairing_front_counterexample:
  "\<not> queue_nonempty (join_filter carol_user (init ''key'' ''dom'')) \<and>
   \<not> queue_nonempty (join_filter alice_user (join_filter carol_user (init ''key'' ''dom''))) \<and>
   map user_id (waiting_queue two_waiting) = [3, 1] \<and>
   user_in_queue 1 two_waiting \<and>
   map user_id (waiting_queue (handle_join_queue (online 3 ''t3'') bob two_waiting)) = [1] \<and>
   map vs_user1_id (voice_sessions (handle_join_queue (online 3 ''t3'') bob two_waiting)) = [3] \<and>
   map vs_user2_id (voice_sessions (handle_join_queue (online 3 ''t3'') bob two_waiting)) =
     [Some 2] \<and>
   map fst (emitted (handle_join_queue (online 3 ''t3'') bob two_waiting)) =
     [''sid-c'', ''sid-a'', ''sid-c'', ''sid-b'']"
proof -
  have tests: "\<not> queue_nonempty (join_filter carol_user (init ''key'' ''dom''))"
      "\<not> queue_nonempty (join_filter alice_user (join_filter carol_user (init ''key'' ''dom'')))"
    by (simp_all add: queue_nonempty_def join_filter_def init_def remove_user_def)
  show ?thesis
    using tests unfolding two_waiting_eq
    by (simp add: handle_join_queue_def user_in_queue_def create_daily_room_def bob_def
        online_def remove_user_def alice_entry_def init_def Let_def)
qed

text \<open>
  C6, amended. The queue is first in, first out. Lines 274-284 append at the back, so entries
  queued one after the other stand in the order of their arrival. The pairing takes the front:
  in any state, if the queue without the caller's own entries is \<open>partner # rest\<close>, the caller is
  paired with \<open>partner\<close> and \<open>rest\<close> stays queued in its order. So after joins that only enqueue,
  the join of another user is paired with the earliest arrival and leaves the later ones queued
  in their order. The entry popped is \<open>A\<close> when no older entry waits in front of \<open>A\<close>; that is
  always so when requests and tasks are served one at a time, for then a join that finds another
  user waiting pairs at once and the queue never holds more than one entry.
\<close>

theorem fifo_pairing:
  assumes "current_user req = Some cu"
  shows "waiting_queue (enqueue_all js s) =
      waiting_queue s @ map (\<lambda>(e, r, c). new_entry e r c) js \<and>
    (remove_user (u_id cu) (waiting_queue t) = partner # rest \<longrightarrow>
       waiting_queue (handle_join_queue ev req t) = rest \<and>
       map vs_user1_id (voice_sessions (handle_join_queue ev req t)) =
         map vs_user1_id (voice_sessions t) @ [user_id partner] \<and>
       map fst (emitted (handle_join_queue ev req t)) =
         map fst (emitted t) @ [sid partner, req_sid req]) \<and>
    (waiting_queue s = [] \<and> u_id cu \<notin> (\<lambda>(e, r, c). u_id c) ` set ((e1, r1, c1) # js) \<longrightarrow>
       waiting_queue (handle_join_queue ev req (enqueue_all ((e1, r1, c1) # js) s)) =
         map (\<lambda>(e, r, c). new_entry e r c) js \<and>
       map vs_user1_id
           (voice_sessions (handle_join_queue ev req (enqueue_all ((e1, r1, c1) # js) s))) =
         map vs_user1_id (voice_sessions s) @ [u_id c1]) \<and>
    (serially_reachable s' \<longrightarrow> length (waiting_queue s') \<le> 1) \<and>
    (serially_reachable s' \<and> a \<in> set (waiting_queue s') \<and> user_id a \<noteq> u_id cu \<longrightarrow>
       waiting_queue (handle_join_queue ev req s') = [] \<and>
       map vs_user1_id (voice_sessions (handle_join_queue ev req s')) =
         map vs_user1_id (voice_sessions s') @ [user_id a] \<and>
       map fst (emitted (handle_join_queue ev req s')) =
         map fst (emitted s') @ [sid a, req_sid req])"
proof (intro conjI impI)
  show "waiting_queue (enqueue_all js s) =
      waiting_queue s @ map (\<lambda>(e, r, c). new_entry e r c) js"
    by (rule queue_enqueue_all)
next
  assume "remove_user (u_id cu) (waiting_queue t) = partner # rest"
  note p = join_pairs [OF assms this, of ev]
  show "waiting_queue (handle_join_queue ev req t) = rest"
    by (simp add: p Let_def)
  show "map vs_user1_id (voice_sessions (handle_join_queue ev req t)) =
      map vs_user1_id (voice_sessions t) @ [user_id partner]"
    by (simp add: p Let_def)
  show "map fst (emitted (handle_join_queue ev req t)) =
      map fst (emitted t) @ [sid partner, req_sid req]"
    by (simp add: p Let_def)
next
  assume h: "waiting_queue s = [] \<and>
    u_id cu \<notin> (\<lambda>(e, r, c). u_id c) ` set ((e1, r1, c1) # js)"
  let ?t = "enqueue_all ((e1, r1, c1) # js) s"
  let ?es = "map (\<lambda>(e, r, c). new_entry e r c) js"
  from h have q: "waiting_queue ?t = new_entry e1 r1 c1 # ?es"
    using queue_enqueue_all [of "(e1, r1, c1) # js" s] by simp
  have "user_id x \<noteq> u_id cu" if "x \<in> set (waiting_queue ?t)" for x
  proof -
    from that obtain e r c where x: "x = new_entry e r c" and m: "(e, r, c) \<in> set ((e1, r1, c1) # js)"
      unfolding q by auto
    from m have "u_id c \<in> (\<lambda>(e, r, c). u_id c) ` set ((e1, r1, c1) # js)"
      by (rule rev_image_eqI) simp
    with h have "u_id c \<noteq> u_id cu" by metis
    with x show ?thesis by (simp add: new_entry_def)
  qed
  then have "\<forall>x \<in> set (waiting_queue ?t). user_id x \<noteq> u_id cu"
    by blast
  then have "remove_user (u_id cu) (waiting_queue ?t) = waiting_queue ?t"
    by (simp add: remove_user_def filter_id_conv)
  with q have "remove_user (u_id cu) (waiting_queue ?t) = new_entry e1 r1 c1 # ?es"
    by simp
  note p = join_pairs [OF assms this, of ev]
  show "waiting_queue (handle_join_queue ev req ?t) = ?es"
    unfolding p by (simp add: Let_def)
  show "map vs_user1_id (voice_sessions (handle_join_queue ev req ?t)) =
      map vs_user1_id (voice_sessions s) @ [u_id c1]"
    unfolding p by (simp add: Let_def new_entry_def sessions_enqueue_all join_enqueue_def)
next
  assume "serially_reachable s'"
  then show "length (waiting_queue s') \<le> 1" by (rule reachable_short)
next
  assume h: "serially_reachable s' \<and> a \<in> set (waiting_queue s') \<and> user_id a \<noteq> u_id cu"
  then have "serially_reachable s'" by simp
  then have "length (waiting_queue s') \<le> 1" by (rule reachable_short)
  with h have "waiting_queue s' = [a]"
    by (cases "waiting_queue s'") auto
  with h have "remove_user (u_id cu) (waiting_queue s') = [a]"
    by (simp add: remove_user_def)
  note p = join_pairs [OF assms this, of ev]
  show "waiting_queue (handle_join_queue ev req s') = []"
    by (simp add: p Let_def)
  show "map vs_user1_id (voice_sessions (handle_join_queue ev req s')) =
      map vs_user1_id (voice_sessions s') @ [user_id a]"
    by (simp add: p Let_def)
  show "map fst (emitted (handle_join_queue ev req s')) =
      map fst (emitted s') @ [sid a, req_sid req]"
    by (simp add: p Let_def)
qed

theorem fifo_pairing_witness:
  "current_user bob = Some \<lparr>u_id = 2, u_username = ''bob''\<rparr> \<and>
   waiting_queue (enqueue_all [(at_time 2 ''t2'', alice, alice_user)] (init ''key'' ''dom'')) =
     [alice_entry 2] \<and>
   waiting_queue (handle_join_queue (online 3 ''t3'') bob
      (enqueue_all [(at_time 0 ''t1'', carol, carol_user), (at_time 2 ''t2'', alice, alice_user)]
         (init ''key'' ''dom''))) = [alice_entry 2] \<and>
   map vs_user1_id (voice_sessions (handle_join_queue (online 3 ''t3'') bob
      (enqueue_all [(at_time 0 ''t1'', carol, carol_user), (at_time 2 ''t2'', alice, alice_user)]
         (init ''key'' ''dom'')))) = [3] \<and>
   waiting_queue (handle_join_queue (online 3 ''t3'') bob two_waiting) = [alice_entry 2] \<and>
   map fst (emitted (handle_join_queue (online 3 ''t3'') bob two_waiting)) =
     [''sid-c'', ''sid-a'', ''sid-c'', ''sid-b''] \<and>
   serially_reachable (handle_join_queue (at_time 0 ''t1'') alice (init ''key'' ''dom'')) \<and>
   waiting_queue (handle_join_queue (online 3 ''t3'') bob
      (handle_join_queue (at_time 0 ''t1'') alice (init ''key'' ''dom''))) = [] \<and>
   map vs_user1_id (voice_sessions (handle_join_queue (online 3 ''t3'') bob
      (handle_join_queue (at_time 0 ''t1'') alice (init ''key'' ''dom'')))) = [1]"
proof -
  let ?s1 = "handle_join_queue (at_time 0 ''t1'') alice (init ''key'' ''dom'')"
  let ?c = "\<lparr>user_id = 3, username = ''carol'', sid = ''sid-c'', joined_at = 0\<rparr>"
  have b: "current_user bob = Some \<lparr>u_id = 2, u_username = ''bob''\<rparr>"
    by (simp add: bob_def)
  have r: "serially_reachable ?s1" by (rule alice_waits_reachable)
  have q1: "waiting_queue ?s1 = [alice_entry 0]" by (simp add: alice_waits)
  have v1: "voice_sessions ?s1 = []" unfolding alice_waits by (simp add: init_def)
  have e1: "emitted ?s1 = [(''sid-a'', Waiting 1)]" by (simp add: alice_waits)
  have q0: "waiting_queue (init ''key'' ''dom'') = []" "voice_sessions (init ''key'' ''dom'') = []"
    by (simp_all add: init_def)
  have q2: "remove_user 2 (waiting_queue two_waiting) = [?c, alice_entry 2]"
    by (simp add: two_waiting_eq remove_user_def alice_entry_def)
  have v2: "voice_sessions two_waiting = []"
      "emitted two_waiting = [(''sid-c'', Waiting 1), (''sid-a'', Waiting 2)]"
    unfolding two_waiting_eq by (simp_all add: init_def)
  have n: "new_entry (at_time 2 ''t2'') alice alice_user = alice_entry 2"
    by (simp add: new_entry_def alice_def alice_user_def at_time_def alice_entry_def)
  have ids: "u_id carol_user = 3" "u_id alice_user = 1"
    by (simp_all add: carol_user_def alice_user_def)
  from fifo_pairing [OF b, where js = "[(at_time 2 ''t2'', alice, alice_user)]"
      and s = "init ''key'' ''dom''" and ?e1.0 = "at_time 0 ''t1''" and ?r1.0 = carol
      and ?c1.0 = carol_user and t = two_waiting and partner = ?c and rest = "[alice_entry 2]"
      and s' = ?s1 and a = "alice_entry 0" and ev = "online 3 ''t3''"]
  show ?thesis
    using r by (simp add: b q0 q1 v1 e1 q2 v2 n ids alice_entry_def bob_def)
qed

subsection \<open>C7\<close>

text \<open>
  C7 (Scenario A). A user who joins while the queue is empty is sent one \<^verbatim>\<open>waiting\<close> event with
  position 1. When a second user joins next, before the first one's timeout has run, two
  \<^verbatim>\<open>matched\<close> events are sent, one to each socket, both with \<^verbatim>\<open>is_ai\<close> false, the same session
  id and room URL, and each carrying the other user's name as \<^verbatim>\<open>partner_name\<close>.
\<close>

theorem scenario_A:
  assumes "waiting_queue s = []"
    and "current_user r1 = Some u1" and "current_user r2 = Some u2"
    and "u_id u1 \<noteq> u_id u2"
  shows "emitted (handle_join_queue e1 r1 s) = emitted s @ [(req_sid r1, Waiting 1)] \<and>
    emitted (handle_join_queue e2 r2 (handle_join_queue e1 r1 s)) =
      emitted (handle_join_queue e1 r1 s) @
      [(req_sid r1,
        Matched \<lparr>p_session_id = token_urlsafe e2,
                 p_room_url = fst (fst (create_daily_room e2 (''room'' @ token_hex e2) s)),
                 p_is_ai = False, p_partner_name = Some (u_username u2)\<rparr>),
       (req_sid r2,
        Matched \<lparr>p_session_id = token_urlsafe e2,
                 p_room_url = fst (fst (create_daily_room e2 (''room'' @ token_hex e2) s)),
                 p_is_ai = False, p_partner_name = Some (u_username u1)\<rparr>)]"
proof -
  let ?s1 = "handle_join_queue e1 r1 s"
  have s1: "?s1 = s\<lparr>waiting_queue := [\<lparr>user_id = u_id u1, username = u_username u1,
                 sid = req_sid r1, joined_at = now e1\<rparr>],
              emitted := emitted s @ [(req_sid r1, Waiting 1)],
              background_tasks := background_tasks s @
                 [\<lparr>t_user_id = u_id u1, t_sid = req_sid r1,
                   t_wake = now e1 + timeout_seconds\<rparr>]\<rparr>"
    using assms(1,2) by (simp add: handle_join_queue_def remove_user_def Let_def)
  have first: "emitted ?s1 = emitted s @ [(req_sid r1, Waiting 1)]"
    by (simp add: s1)
  have url: "fst (create_daily_room e2 n (s'\<lparr>waiting_queue := []\<rparr>)) = fst (create_daily_room e2 n s)"
    if "DAILY_API_KEY s' = DAILY_API_KEY s" "DAILY_DOMAIN s' = DAILY_DOMAIN s" for n s'
    using that by (intro create_daily_room_cong) simp_all
  have second: "emitted (handle_join_queue e2 r2 ?s1) = emitted ?s1 @
      [(req_sid r1,
        Matched \<lparr>p_session_id = token_urlsafe e2,
                 p_room_url = fst (fst (create_daily_room e2 (''room'' @ token_hex e2) s)),
                 p_is_ai = False, p_partner_name = Some (u_username u2)\<rparr>),
       (req_sid r2,
        Matched \<lparr>p_session_id = token_urlsafe e2,
                 p_room_url = fst (fst (create_daily_room e2 (''room'' @ token_hex e2) s)),
                 p_is_ai = False, p_partner_name = Some (u_username u1)\<rparr>)]"
    unfolding s1 using assms(3,4)
    by (simp add: handle_join_queue_def remove_user_def Let_def split_beta
        create_daily_room_state url)
  from first second show ?thesis by simp
qed

theorem scenario_A_witness:
  "emitted (handle_join_queue (at_time 0 ''t1'') alice (init ''key'' ''dom'')) =
     [(''sid-a'', Waiting 1)] \<and>
   emitted (handle_join_queue (at_time 3 ''t2'') bob
      (handle_join_queue (at_time 0 ''t1'') alice (init ''key'' ''dom''))) =
     [(''sid-a'', Waiting 1),
      (''sid-a'', Matched \<lparr>p_session_id = ''t2'', p_room_url = ''https://dom.daily.co/roomt2'',
          p_is_ai = False, p_partner_name = Some ''bob''\<rparr>),
      (''sid-b'', Matched \<lparr>p_session_id = ''t2'', p_room_url = ''https://dom.daily.co/roomt2'',
          p_is_ai = False, p_partner_name = Some ''alice''\<rparr>)]"
  using scenario_A [of "init ''key'' ''dom''" alice "\<lparr>u_id = 1, u_username = ''alice''\<rparr>"
      bob "\<lparr>u_id = 2, u_username = ''bob''\<rparr>" "at_time 0 ''t1''" "at_time 3 ''t2''"]
  by (simp add: init_def alice_def bob_def at_time_def create_daily_room_def fallback_url_def)

subsection \<open>C8\<close>

text \<open>
  C8 (Scenario B) does not hold on the code. Alice joins the empty queue at time 0: her entry is
  queued and a \<^verbatim>\<open>check_timeout\<close> task is started that sleeps 8 seconds. Nobody else joins. At
  time 8 the task finds her entry, removes it and requests the room \<^verbatim>\<open>ait2\<close>, which the API
  grants, and then ends with \<^verbatim>\<open>RuntimeError\<close> at line 310. What is left is the state of the
  start with the \<^verbatim>\<open>waiting\<close> event and the POST in the logs: the queue is empty, no
  \<^verbatim>\<open>VoiceSession\<close> row and no entry in \<^verbatim>\<open>active_sessions\<close> were made, and no \<^verbatim>\<open>matched\<close>
  event was sent.
\<close>

theorem scenario_B_task_stops:
  "fst (check_timeout (online 8 ''t2'') 1 ''sid-a''
      (handle_join_queue (at_time 0 ''t1'') alice (init ''key'' ''dom''))) = Inl RuntimeError \<and>
   waiting_queue (handle_join_queue (at_time 0 ''t1'') alice (init ''key'' ''dom'')) =
     [alice_entry 0] \<and>
   background_tasks (handle_join_queue (at_time 0 ''t1'') alice (init ''key'' ''dom'')) =
     [\<lparr>t_user_id = 1, t_sid = ''sid-a'', t_wake = 8\<rparr>] \<and>
   run_task (online 8 ''t2'') \<lparr>t_user_id = 1, t_sid = ''sid-a'', t_wake = 8\<rparr>
      (handle_join_queue (at_time 0 ''t1'') alice (init ''key'' ''dom'')) =
     (init ''key'' ''dom'')\<lparr>emitted := [(''sid-a'', Waiting 1)], api_calls := [Post ''ait2'']\<rparr>"
  unfolding alice_waits
  by (simp add: run_task_def check_timeout_def check_timeout_body_def user_in_queue_def
      create_daily_room_def remove_user_def alice_entry_def init_def at_time_def online_def Let_def)

subsection \<open>C9\<close>

text \<open>
  C9 does not hold on the code for the room names that \<^verbatim>\<open>check_timeout\<close> requests. Alice waits
  alone; at time 8 her task runs and the POST for the room \<^verbatim>\<open>ait2\<close> fails
  (\<^verbatim>\<open>requests.post\<close> raises). \<^verbatim>\<open>create_daily_room\<close> returns the fallback URL built from that
  name, as the claim says, but the match does not go on with it: the task ends with
  \<^verbatim>\<open>RuntimeError\<close> at line 310, no session is registered and no \<^verbatim>\<open>matched\<close> event is sent.
\<close>

theorem provisioning_failure_timeout_stops:
  "post_result (at_time 8 ''t2'') = Raised \<and>
   fst (create_daily_room (at_time 8 ''t2'') ''ait2''
      (handle_join_queue (at_time 0 ''t1'') alice (init ''key'' ''dom''))) =
     (''https://dom.daily.co/ait2'', ''ait2'') \<and>
   check_timeout (at_time 8 ''t2'') 1 ''sid-a''
      (handle_join_queue (at_time 0 ''t1'') alice (init ''key'' ''dom'')) =
     (Inl RuntimeError,
      (init ''key'' ''dom'')\<lparr>emitted := [(''sid-a'', Waiting 1)], api_calls := [Post ''ait2''],
         background_tasks := [\<lparr>t_user_id = 1, t_sid = ''sid-a'', t_wake = 8\<rparr>]\<rparr>)"
  unfolding alice_waits
  by (simp add: check_timeout_def check_timeout_body_def
      user_in_queue_def create_daily_room_def fallback_url_def remove_user_def alice_entry_def
      init_def at_time_def Let_def)

subsection \<open>C10\<close>

text \<open>
  C10. Every \<^verbatim>\<open>end_session\<close> request of a logged-in user sends exactly one event, a
  \<^verbatim>\<open>session_ended\<close> to the caller's socket, whatever \<open>data\<close> holds: no session id, an
  unknown one, or that of a session already ended.
\<close>

theorem end_session_notifies:
  assumes "current_user req = Some cu"
  shows "emitted (handle_end_session ev req data s) = emitted s @ [(req_sid req, SessionEnded)]"
  using assms
  by (simp add: handle_end_session_def Let_def split_beta delete_daily_room_state
      split: option.splits)

theorem end_session_notifies_witness:
  "emitted (handle_end_session (at_time 9 ''t'') alice Map.empty (init ''key'' ''dom'')) =
     [(''sid-a'', SessionEnded)]"
  using end_session_notifies [of alice "\<lparr>u_id = 1, u_username = ''alice''\<rparr>" "at_time 9 ''t''"
      Map.empty "init ''key'' ''dom''"]
  by (simp add: init_def alice_def)

end
